theory Spec2Isabelle
  imports Complex_Main "HOL-Library.Word"
begin

section \<open>JavaScript values\<close>

text \<open>
  The payloads decoded from the upstream service and the objects the operations return
  are loosely typed, so both are values of one datatype. A decoded JSON number is a
  finite double (represented by the rational it denotes; the two zeros coincide, as they
  do for truthiness and for \<open>Set\<close> membership) or an infinity (an overflowing
  literal), never \<open>NaN\<close>. Strings are the UTF-8 bytes of the JavaScript string. An object is the list
  of its own properties in insertion order (a decoded object has each key once). \<open>JUndefined\<close> is what reading a missing
  property gives.
\<close>

datatype number = Finite rat | PosInfinity | NegInfinity

datatype jv =
    JUndefined
  | JNull
  | JBool bool
  | JNum number
  | JStr string
  | JArr "jv list"
  | JObj "(string \<times> jv) list"

text \<open>
  What the code can throw: \<open>new Error(message)\<close>, and the engine's \<open>TypeError\<close>
  (reading a property of \<open>null\<close>/\<open>undefined\<close>, iterating a value that is not
  iterable), whose message text is the engine's and is not modelled.
\<close>

datatype error = Error string | TypeError

fun truthy :: "jv \<Rightarrow> bool" where
  "truthy JUndefined = False"
| "truthy JNull = False"
| "truthy (JBool b) = b"
| "truthy (JNum n) = (n \<noteq> Finite 0)"
| "truthy (JStr s) = (s \<noteq> [])"
| "truthy (JArr xs) = True"
| "truthy (JObj kvs) = True"

text \<open>\<open>a || b\<close>\<close>

definition js_or :: "jv \<Rightarrow> jv \<Rightarrow> jv" where
  "js_or a b = (if truthy a then a else b)"

fun nullish :: "jv \<Rightarrow> bool" where
  "nullish JUndefined = True"
| "nullish JNull = True"
| "nullish v = False"

text \<open>
  \<open>v.k\<close> for a value \<open>v\<close> that is not \<open>null\<close>/\<open>undefined\<close>, and for the property
  names the source reads (\<open>value\<close>, \<open>Code\<close>, \<open>Title\<close>, \<open>data\<close>, ...): an object
  gives its own property, anything else (a string, number, boolean or array) has no
  property of such a name and gives \<open>undefined\<close>.
\<close>

fun js_get :: "jv \<Rightarrow> string \<Rightarrow> jv" where
  "js_get (JObj kvs) k = (case map_of kvs k of Some v \<Rightarrow> v | None \<Rightarrow> JUndefined)"
| "js_get v k = JUndefined"

text \<open>\<open>v?.k\<close>\<close>

definition js_opt_get :: "jv \<Rightarrow> string \<Rightarrow> jv" where
  "js_opt_get v k = (if nullish v then JUndefined else js_get v k)"

text \<open>\<open>xs.length\<close> of an array, as a JavaScript number.\<close>

definition js_length :: "jv list \<Rightarrow> jv" where
  "js_length xs = JNum (Finite (of_nat (length xs)))"

section \<open>Strings\<close>

text \<open>A template literal's \<open>${x}\<close> for a string parameter that may be absent.\<close>

fun tmpl :: "string option \<Rightarrow> string" where
  "tmpl None = ''undefined''"
| "tmpl (Some s) = s"

text \<open>
  A number parameter (\<open>top\<close>) is an integer that a JavaScript number holds exactly,
  from \<open>-2^53\<close> to \<open>2^53 - 1\<close>: the signed value of a 54-bit word. For such a
  number \<open>String(n)\<close> is its decimal numeral. An integer beyond that range, which
  JavaScript rounds and prints in other ways (with an exponent from \<open>10^21\<close>), is not a
  value of this type.
\<close>

type_synonym safe_integer = "54 word"

definition digit_char :: "nat \<Rightarrow> char" where
  "digit_char d = ''0123456789'' ! d"

fun show_nat :: "nat \<Rightarrow> string" where
  "show_nat n = (if n < 10 then [digit_char n] else show_nat (n div 10) @ [digit_char (n mod 10)])"

definition show_int :: "int \<Rightarrow> string" where
  "show_int i = (if i < 0 then CHR ''-'' # show_nat (nat (- i)) else show_nat (nat i))"

definition number_string :: "safe_integer \<Rightarrow> string" where
  "number_string n = show_int (sint n)"

text \<open>\<open>s.includes(c)\<close> and \<open>s.split(c)\<close> for a one-character ASCII separator.\<close>

definition js_includes :: "string \<Rightarrow> char \<Rightarrow> bool" where
  "js_includes s c = (c \<in> set s)"

fun js_split :: "char \<Rightarrow> string \<Rightarrow> string list" where
  "js_split c [] = [[]]"
| "js_split c (x # xs) =
     (if x = c then [] # js_split c xs
      else (case js_split c xs of [] \<Rightarrow> [[x]] | w # ws \<Rightarrow> (x # w) # ws))"

text \<open>\<open>parts.join(sep)\<close>\<close>

fun js_join :: "string \<Rightarrow> string list \<Rightarrow> string" where
  "js_join sep [] = []"
| "js_join sep [x] = x"
| "js_join sep (x # y # zs) = x @ sep @ js_join sep (y # zs)"

text \<open>
  \<open>s.trim()\<close> removes the white space and line terminators of ECMAScript from both
  ends: U+0009..U+000D, U+0020, U+00A0, U+1680, U+2000..U+200A, U+2028, U+2029, U+202F,
  U+205F, U+3000 and U+FEFF, here in their UTF-8 encodings.
\<close>

definition whitespace :: "string list" where
  "whitespace =
    [[CHR 0x09], [CHR 0x0A], [CHR 0x0B], [CHR 0x0C], [CHR 0x0D], [CHR 0x20],
     [CHR 0xC2, CHR 0xA0],
     [CHR 0xE1, CHR 0x9A, CHR 0x80],
     [CHR 0xE2, CHR 0x80, CHR 0x80], [CHR 0xE2, CHR 0x80, CHR 0x81],
     [CHR 0xE2, CHR 0x80, CHR 0x82], [CHR 0xE2, CHR 0x80, CHR 0x83],
     [CHR 0xE2, CHR 0x80, CHR 0x84], [CHR 0xE2, CHR 0x80, CHR 0x85],
     [CHR 0xE2, CHR 0x80, CHR 0x86], [CHR 0xE2, CHR 0x80, CHR 0x87],
     [CHR 0xE2, CHR 0x80, CHR 0x88], [CHR 0xE2, CHR 0x80, CHR 0x89],
     [CHR 0xE2, CHR 0x80, CHR 0x8A],
     [CHR 0xE2, CHR 0x80, CHR 0xA8], [CHR 0xE2, CHR 0x80, CHR 0xA9],
     [CHR 0xE2, CHR 0x80, CHR 0xAF],
     [CHR 0xE2, CHR 0x81, CHR 0x9F],
     [CHR 0xE3, CHR 0x80, CHR 0x80],
     [CHR 0xEF, CHR 0xBB, CHR 0xBF]]"

text \<open>The length of the first of the sequences \<open>ws\<close> that \<open>s\<close> starts with.\<close>

fun leading :: "string list \<Rightarrow> string \<Rightarrow> nat option" where
  "leading [] s = None"
| "leading (w # ws) s =
     (if w \<noteq> [] \<and> take (length w) s = w then Some (length w) else leading ws s)"

lemma leading_Some: "leading ws s = Some n \<Longrightarrow> 0 < n \<and> n \<le> length s"
proof (induction ws)
  case Nil
  then show ?case by simp
next
  case (Cons w ws)
  show ?case
  proof (cases "w \<noteq> [] \<and> take (length w) s = w")
    case True
    then have "length (take (length w) s) = length w" by simp
    then have "length w \<le> length s" by simp
    with True Cons.prems show ?thesis by auto
  next
    case False
    with Cons show ?thesis by auto
  qed
qed

function strip_leading :: "string list \<Rightarrow> string \<Rightarrow> string" where
  "strip_leading ws s =
     (case leading ws s of None \<Rightarrow> s | Some n \<Rightarrow> strip_leading ws (drop n s))"
  by pat_completeness auto
termination
proof (relation "measure (\<lambda>(ws, s). length s)")
  show "wf (measure (\<lambda>(ws, s). length s))" by simp
next
  fix ws :: "string list" and s :: string and n :: nat
  assume "leading ws s = Some n"
  then have "0 < n \<and> n \<le> length s" by (rule leading_Some)
  then have "length s - n < length s" by arith
  then show "((ws, drop n s), (ws, s)) \<in> measure (\<lambda>(ws, s). length s)" by simp
qed

definition trim :: "string \<Rightarrow> string" where
  "trim s = rev (strip_leading (map rev whitespace) (rev (strip_leading whitespace s)))"

text \<open>
  \<open>for (const ch of s)\<close> over a string visits its code points: in UTF-8, a byte
  followed by its continuation bytes (\<open>0x80..0xBF\<close>).
\<close>

definition is_continuation :: "char \<Rightarrow> bool" where
  "is_continuation c = (0x80 \<le> (of_char c :: nat) \<and> (of_char c :: nat) < 0xC0)"

function code_points :: "string \<Rightarrow> string list" where
  "code_points [] = []"
| "code_points (c # cs) =
     (c # takeWhile is_continuation cs) # code_points (dropWhile is_continuation cs)"
  by pat_completeness auto
termination
  by (relation "measure length") (auto simp: length_dropWhile_le less_Suc_eq_le)

section \<open>Query Builder\<close>

definition WHO_ODATA_BASE_URL :: string where
  "WHO_ODATA_BASE_URL = ''https://ghoapi.azureedge.net/api''"

text \<open>
  \<open>URLSearchParams.toString()\<close>: the \<open>application/x-www-form-urlencoded\<close>
  serialiser. ASCII letters and digits and \<open>* - . _\<close> stay, a space becomes \<open>+\<close>,
  every other byte of the UTF-8 encoding becomes \<open>%XX\<close> in upper-case hexadecimal.
\<close>

definition unreserved :: "char \<Rightarrow> bool" where
  "unreserved c =
     (let n = (of_char c :: nat) in
        (48 \<le> n \<and> n \<le> 57) \<or> (65 \<le> n \<and> n \<le> 90) \<or> (97 \<le> n \<and> n \<le> 122) \<or>
        c = CHR ''*'' \<or> c = CHR ''-'' \<or> c = CHR ''.'' \<or> c = CHR ''_'')"

definition hex_digit :: "nat \<Rightarrow> char" where
  "hex_digit d = ''0123456789ABCDEF'' ! d"

definition encode_byte :: "char \<Rightarrow> string" where
  "encode_byte c =
     (if c = CHR '' '' then ''+''
      else if unreserved c then [c]
      else [CHR ''%'', hex_digit ((of_char c :: nat) div 16), hex_digit ((of_char c :: nat) mod 16)])"

definition urlencode :: "string \<Rightarrow> string" where
  "urlencode s = concat (map encode_byte s)"

definition serialize :: "(string \<times> string) list \<Rightarrow> string" where
  "serialize kvs = js_join ''&'' (map (\<lambda>(k, v). urlencode k @ ''='' @ urlencode v) kvs)"

text \<open>
  A query parameter's value: a string or a number (\<open>$top\<close>); \<open>None\<close> stands for
  \<open>undefined\<close> and \<open>null\<close>.
\<close>

datatype qval = QStr string | QNum safe_integer

fun qval_string :: "qval \<Rightarrow> string" where
  "qval_string (QStr s) = s"
| "qval_string (QNum n) = number_string n"

text \<open>
  The \<open>forEach\<close> over \<open>Object.entries(params)\<close>: a parameter is appended unless its
  value is \<open>undefined\<close>, \<open>null\<close> or the empty string.
\<close>

fun append_params :: "(string \<times> qval option) list \<Rightarrow> (string \<times> string) list" where
  "append_params [] = []"
| "append_params ((k, None) # kvs) = append_params kvs"
| "append_params ((k, Some v) # kvs) =
     (if v \<noteq> QStr '''' then (k, qval_string v) # append_params kvs else append_params kvs)"

definition generateWhoODataUrl :: "string \<Rightarrow> (string \<times> qval option) list \<Rightarrow> string" where
  "generateWhoODataUrl endpoint params =
     (let url = WHO_ODATA_BASE_URL;
          url = (if endpoint \<noteq> [] then url @ ''/'' @ endpoint else url);
          queryString = serialize (append_params params)
      in if queryString \<noteq> [] then url @ ''?'' @ queryString else url)"

section \<open>Transport\<close>

text \<open>
  The HTTP client together with the decoding of the body is a capability of the caller:
  for a URL it gives the decoded JSON value, or the message of the failure (network
  error, status, undecodable body). An operation's outcome is the list of URLs it
  requested, in order, and the value it returns or the error it throws.
\<close>

type_synonym transport = "string \<Rightarrow> string + jv"

type_synonym 'a outcome = "string list \<times> (error + 'a)"

definition makeWhoODataRequest :: "transport \<Rightarrow> string \<Rightarrow> error + jv" where
  "makeWhoODataRequest fetch url =
     (case fetch url of
        Inl message \<Rightarrow> Inl (Error (''WHO OData API request failed: '' @ message))
      | Inr body \<Rightarrow> Inr body)"

definition and_then :: "error + 'a \<Rightarrow> ('a \<Rightarrow> error + 'b) \<Rightarrow> error + 'b" where
  "and_then m f = (case m of Inl e \<Rightarrow> Inl e | Inr x \<Rightarrow> f x)"

section \<open>Response Normalizer\<close>

text \<open>
  The values \<open>for (const x of v)\<close> visits: the elements of an array, the code points
  of a string; any other value is not iterable.
\<close>

fun for_of :: "jv \<Rightarrow> error + jv list" where
  "for_of (JArr xs) = Inr xs"
| "for_of (JStr s) = Inr (map JStr (code_points s))"
| "for_of v = Inl TypeError"

text \<open>The loop body run on each value in turn, its results pushed in order.\<close>

fun push_each :: "(jv \<Rightarrow> error + jv) \<Rightarrow> jv list \<Rightarrow> error + jv list" where
  "push_each f [] = Inr []"
| "push_each f (x # xs) =
     and_then (f x) (\<lambda>y. and_then (push_each f xs) (\<lambda>ys. Inr (y # ys)))"

text \<open>\<open>if (result?.value) { for (const x of result.value) { out.push(f(x)) } }\<close>\<close>

definition collect :: "(jv \<Rightarrow> error + jv) \<Rightarrow> jv \<Rightarrow> error + jv list" where
  "collect f result =
     (if truthy (js_opt_get result ''value'')
      then and_then (for_of (js_get result ''value'')) (push_each f)
      else Inr [])"

definition source_label :: jv where
  "source_label = JStr ''WHO Global Health Observatory (OData API)''"

fun str_val :: "string option \<Rightarrow> jv" where
  "str_val None = JUndefined"
| "str_val (Some s) = JStr s"

subsection \<open>getDimensions\<close>

definition dimension_of :: "jv \<Rightarrow> error + jv" where
  "dimension_of dimension =
     (if nullish dimension then Inl TypeError
      else Inr (JObj
        [(''code'', js_or (js_get dimension ''Code'') (JStr [])),
         (''title'', js_or (js_get dimension ''Title'') (JStr [])),
         (''description'', js_or (js_get dimension ''Description'') (JStr []))]))"

definition getDimensions :: "transport \<Rightarrow> jv outcome" where
  "getDimensions fetch =
     (let url = generateWhoODataUrl ''Dimension'' [] in
      ([url],
       and_then (makeWhoODataRequest fetch url) (\<lambda>result.
       and_then (collect dimension_of result) (\<lambda>dimensions.
         Inr (JObj
           [(''dimensions'', JArr dimensions),
            (''total_count'', js_length dimensions),
            (''source'', source_label),
            (''api_url'', JStr url)])))))"

subsection \<open>getDimensionCodes\<close>

definition code_of :: "jv \<Rightarrow> error + jv" where
  "code_of code =
     (if nullish code then Inl TypeError
      else Inr (JObj
        [(''code'', js_or (js_get code ''Code'') (JStr [])),
         (''title'', js_or (js_get code ''Title'') (JStr [])),
         (''description'', js_or (js_get code ''Description'') (JStr [])),
         (''parent_code'', js_or (js_get code ''ParentCode'') JNull)]))"

definition getDimensionCodes :: "transport \<Rightarrow> string option \<Rightarrow> jv outcome" where
  "getDimensionCodes fetch dimensionCode =
     (let url = generateWhoODataUrl (''DIMENSION/'' @ tmpl dimensionCode @ ''/DimensionValues'') [] in
      ([url],
       and_then (makeWhoODataRequest fetch url) (\<lambda>result.
       and_then (collect code_of result) (\<lambda>codes.
         Inr (JObj
           [(''dimension'', str_val dimensionCode),
            (''codes'', JArr codes),
            (''total_count'', js_length codes),
            (''source'', source_label),
            (''api_url'', JStr url)])))))"

subsection \<open>Request parameters\<close>

text \<open>
  The parameter mapping of a tool call, typed as the tool's input schema and the
  functions' documentation type it: strings, and an integer \<open>top\<close> (a
  \<open>safe_integer\<close>). \<open>None\<close> is an
  absent parameter (\<open>undefined\<close>); for \<open>filter_param\<close> it also stands for the
  \<open>null\<close> that the derived filter can be. The fields \<open>filter_param\<close>,
  \<open>top_param\<close>, \<open>keywords_param\<close> and \<open>method_param\<close> are the parameters
  \<open>filter\<close>, \<open>top\<close>, \<open>keywords\<close> and \<open>method\<close>.
\<close>

record params =
  method_param :: "string option"
  dimension_code :: "string option"
  indicator_code :: "string option"
  keywords_param :: "string option"
  filter_param :: "string option"
  top_param :: "safe_integer option"
  orderby :: "string option"
  country_code :: "string option"
  year :: "string option"
  countries :: "string option"
  years :: "string option"
  sex :: "string option"

definition no_params :: params where
  "no_params =
     \<lparr>method_param = None, dimension_code = None, indicator_code = None, keywords_param = None,
      filter_param = None, top_param = None, orderby = None, country_code = None, year = None,
      countries = None, years = None, sex = None\<rparr>"

text \<open>Truthiness of a string and of a number parameter.\<close>

fun truthy_str :: "string option \<Rightarrow> bool" where
  "truthy_str None = False"
| "truthy_str (Some s) = (s \<noteq> [])"

fun truthy_num :: "safe_integer option \<Rightarrow> bool" where
  "truthy_num None = False"
| "truthy_num (Some n) = (n \<noteq> 0)"

subsection \<open>getHealthData\<close>

definition healthQueryParams :: "params \<Rightarrow> (string \<times> qval option) list" where
  "healthQueryParams p =
     (if truthy_str (filter_param p) then [(''$filter'', map_option QStr (filter_param p))] else []) @
     (if truthy_num (top_param p) then [(''$top'', map_option QNum (top_param p))] else []) @
     (if truthy_str (orderby p) then [(''$orderby'', map_option QStr (orderby p))] else [])"

definition dataPoint :: "string \<Rightarrow> jv \<Rightarrow> error + jv" where
  "dataPoint indicator datum =
     (if nullish datum then Inl TypeError
      else Inr (JObj
        [(''indicator'', JStr indicator),
         (''value'', js_or (js_or (js_get datum ''Value'') (js_get datum ''NumericValue'')) (JStr [])),
         (''numeric_value'', js_or (js_get datum ''NumericValue'') JNull),
         (''display_value'', js_or (js_get datum ''Value'') (JStr [])),
         (''spatial_dim'', js_or (js_get datum ''SpatialDim'') (JStr [])),
         (''time_dim'', js_or (js_get datum ''TimeDim'') (JStr [])),
         (''time_dim_begin'', js_or (js_get datum ''TimeDimensionBegin'') (JStr [])),
         (''time_dim_end'', js_or (js_get datum ''TimeDimensionEnd'') (JStr [])),
         (''dim1'', js_or (js_get datum ''Dim1'') (JStr [])),
         (''dim2'', js_or (js_get datum ''Dim2'') (JStr [])),
         (''dim3'', js_or (js_get datum ''Dim3'') (JStr [])),
         (''comments'', js_or (js_get datum ''Comments'') (JStr [])),
         (''data_source_code'', js_or (js_get datum ''DataSourceCode'') (JStr []))]))"

definition getHealthData :: "transport \<Rightarrow> params \<Rightarrow> jv outcome" where
  "getHealthData fetch p =
     (case indicator_code p of
        None \<Rightarrow> ([], Inl (Error ''indicator_code parameter is required''))
      | Some code \<Rightarrow>
          if code = [] then ([], Inl (Error ''indicator_code parameter is required''))
          else
            (let url = generateWhoODataUrl code (healthQueryParams p) in
             ([url],
              and_then (makeWhoODataRequest fetch url) (\<lambda>result.
              and_then (collect (dataPoint code) result) (\<lambda>healthData.
                Inr (JObj
                  [(''indicator'', JStr code),
                   (''data'', JArr healthData),
                   (''total_count'', js_length healthData),
                   (''source'', source_label),
                   (''api_url'', JStr url)]))))))"

subsection \<open>searchIndicators\<close>

definition squote :: char where
  "squote = CHR 0x27"

definition indicator_of :: "jv \<Rightarrow> error + jv" where
  "indicator_of indicator =
     (if nullish indicator then Inl TypeError
      else Inr (JObj
        [(''code'', js_or (js_get indicator ''IndicatorCode'') (JStr [])),
         (''name'', js_or (js_get indicator ''IndicatorName'') (JStr [])),
         (''category'', js_or (js_get indicator ''Category'') (JStr [])),
         (''definition'', js_or (js_get indicator ''Definition'') (JStr [])),
         (''method'', js_or (js_get indicator ''Method'') (JStr [])),
         (''interpretation'', js_or (js_get indicator ''Interpretation'') (JStr []))]))"

definition searchIndicators :: "transport \<Rightarrow> string option \<Rightarrow> jv outcome" where
  "searchIndicators fetch kw =
     (let filter_clause = ''contains(IndicatorName,'' @ [squote] @ tmpl kw @ [squote] @ '')'';
          url = generateWhoODataUrl ''Indicator'' [(''$filter'', Some (QStr filter_clause))] in
      ([url],
       and_then (makeWhoODataRequest fetch url) (\<lambda>result.
       and_then (collect indicator_of result) (\<lambda>indicators.
         Inr (JObj
           [(''keywords'', str_val kw),
            (''indicators'', JArr indicators),
            (''total_count'', js_length indicators),
            (''source'', source_label),
            (''api_url'', JStr url)])))))"

subsection \<open>getCountryData\<close>

text \<open>
  The filter expression derived from the optional constraints; \<open>None\<close> is the
  \<open>null\<close> of \<open>filters.length > 0 ? filters.join(' and ') : null\<close>.
\<close>

definition countryFilter :: "params \<Rightarrow> string option" where
  "countryFilter p =
     (let filters =
        (if truthy_str (country_code p)
         then [''SpatialDim eq '' @ [squote] @ tmpl (country_code p) @ [squote]] else []) @
        (if truthy_str (year p)
         then [''TimeDim eq '' @ tmpl (year p)] else []) @
        (if truthy_str (sex p)
         then [''Dim1 eq '' @ [squote] @ tmpl (sex p) @ [squote]] else [])
      in if length filters > 0 then Some (js_join '' and '' filters) else None)"

definition getCountryData :: "transport \<Rightarrow> params \<Rightarrow> jv outcome" where
  "getCountryData fetch p =
     (if \<not> truthy_str (indicator_code p)
      then ([], Inl (Error ''indicator_code parameter is required''))
      else getHealthData fetch
             (no_params\<lparr>indicator_code := indicator_code p,
                        filter_param := countryFilter p,
                        top_param := top_param p,
                        orderby := Some ''TimeDim desc''\<rparr>))"

subsection \<open>getCrossTable\<close>

text \<open>
  An element of a destructured array inside a template literal: a missing element is
  \<open>undefined\<close>.
\<close>

definition nth_tmpl :: "string list \<Rightarrow> nat \<Rightarrow> string" where
  "nth_tmpl xs i = (if i < length xs then xs ! i else ''undefined'')"

definition crossTableFilter :: "params \<Rightarrow> string option" where
  "crossTableFilter p =
     (let filters =
        (if truthy_str (countries p)
         then (let countryList =
                 js_join '','' (map (\<lambda>c. [squote] @ trim c @ [squote])
                                  (js_split (CHR '','') (tmpl (countries p))))
               in [''SpatialDim in ('' @ countryList @ '')''])
         else []) @
        (if truthy_str (years p)
         then (if js_includes (tmpl (years p)) (CHR '':'')
               then (let parts = js_split (CHR '':'') (tmpl (years p));
                         startYear = nth_tmpl parts 0;
                         endYear = nth_tmpl parts 1
                     in [''TimeDim ge '' @ startYear @ '' and TimeDim le '' @ endYear])
               else [''TimeDim eq '' @ tmpl (years p)])
         else []) @
        (if truthy_str (sex p)
         then [''Dim1 eq '' @ [squote] @ tmpl (sex p) @ [squote]] else [])
      in if length filters > 0 then Some (js_join '' and '' filters) else None)"

text \<open>\<open>d.k\<close> where \<open>d\<close> may be \<open>null\<close> or \<open>undefined\<close>.\<close>

definition member_of :: "string \<Rightarrow> jv \<Rightarrow> error + jv" where
  "member_of k d = (if nullish d then Inl TypeError else Inr (js_get d k))"

text \<open>
  \<open>new Set(values)\<close>, as the list of its elements in insertion order. A primitive value
  is added unless the set has it already; an array or object is compared by identity, and
  every array or object of a decoded payload is an object of its own, so it is always
  added.
\<close>

fun primitive :: "jv \<Rightarrow> bool" where
  "primitive (JArr xs) = False"
| "primitive (JObj kvs) = False"
| "primitive v = True"

definition set_add :: "jv list \<Rightarrow> jv \<Rightarrow> jv list" where
  "set_add s v = (if primitive v \<and> v \<in> set s then s else s @ [v])"

definition new_Set :: "jv list \<Rightarrow> jv list" where
  "new_Set values = foldl set_add [] values"

text \<open>The parameter default \<open>top = 1000\<close> applies to an absent \<open>top\<close> only.\<close>

fun top_default :: "safe_integer option \<Rightarrow> safe_integer option" where
  "top_default None = Some 1000"
| "top_default (Some n) = Some n"

definition tableData :: "string \<Rightarrow> jv \<Rightarrow> error + jv" where
  "tableData code healthData =
     (case js_get healthData ''data'' of
        JArr ds \<Rightarrow>
          and_then (push_each (member_of ''spatial_dim'') ds) (\<lambda>spatial.
          and_then (push_each (member_of ''time_dim'') ds) (\<lambda>time.
            Inr (JObj
              [(''indicator'', JStr code),
               (''structured_data'', JArr ds),
               (''summary'', JObj
                  [(''unique_countries'', js_length (new_Set spatial)),
                   (''unique_years'', js_length (new_Set time)),
                   (''total_records'', js_length ds)]),
               (''source'', source_label),
               (''api_url'', js_get healthData ''api_url'')])))
      | _ \<Rightarrow> Inl TypeError)"

definition getCrossTable :: "transport \<Rightarrow> params \<Rightarrow> jv outcome" where
  "getCrossTable fetch p =
     (if \<not> truthy_str (indicator_code p)
      then ([], Inl (Error ''indicator_code parameter is required''))
      else
        (case getHealthData fetch
                (no_params\<lparr>indicator_code := indicator_code p,
                           filter_param := crossTableFilter p,
                           top_param := top_default (top_param p),
                           orderby := Some ''SpatialDim, TimeDim desc''\<rparr>) of
           (requests, Inl e) \<Rightarrow> (requests, Inl e)
         | (requests, Inr healthData) \<Rightarrow>
             (requests, tableData (tmpl (indicator_code p)) healthData)))"

section \<open>The tool-call handler\<close>

text \<open>
  What the handler answers: the operation's result (serialised as the text of the
  response), or the message of the error caught by its \<open>try\<close>, as an
  \<open>{error: message}\<close> payload.
\<close>

datatype tool_response = Content jv | ErrorContent error

text \<open>The body of the \<open>try\<close>: the \<open>switch\<close> over the method.\<close>

definition dispatch :: "transport \<Rightarrow> params \<Rightarrow> jv outcome" where
  "dispatch fetch args =
     (let params = args\<lparr>method_param := None\<rparr> in
      if method_param args = Some ''get_dimensions'' then getDimensions fetch
      else if method_param args = Some ''get_dimension_codes'' then
        (if \<not> truthy_str (dimension_code params)
         then ([], Inl (Error ''dimension_code parameter is required for get_dimension_codes''))
         else getDimensionCodes fetch (dimension_code params))
      else if method_param args = Some ''get_health_data'' then
        (if \<not> truthy_str (indicator_code params)
         then ([], Inl (Error ''indicator_code parameter is required for get_health_data''))
         else getHealthData fetch params)
      else if method_param args = Some ''search_indicators'' then
        (if \<not> truthy_str (keywords_param params)
         then ([], Inl (Error ''keywords parameter is required for search_indicators''))
         else searchIndicators fetch (keywords_param params))
      else if method_param args = Some ''get_country_data'' then
        (if \<not> truthy_str (indicator_code params)
         then ([], Inl (Error ''indicator_code parameter is required for get_country_data''))
         else getCountryData fetch params)
      else if method_param args = Some ''get_cross_table'' then
        (if \<not> truthy_str (indicator_code params)
         then ([], Inl (Error ''indicator_code parameter is required for get_cross_table''))
         else getCrossTable fetch params)
      else ([], Inl (Error (''Unknown method: '' @ tmpl (method_param args)))))"

text \<open>
  The handler of a tool call: an unknown tool name is thrown to the caller; absent
  arguments cannot be destructured, which the \<open>try\<close> catches as every other error.
\<close>

definition callTool :: "transport \<Rightarrow> string \<Rightarrow> params option \<Rightarrow> tool_response outcome" where
  "callTool fetch name arguments =
     (if name \<noteq> ''who-health'' then ([], Inl (Error (''Unknown tool: '' @ name)))
      else
        (case arguments of
           None \<Rightarrow> ([], Inr (ErrorContent TypeError))
         | Some args \<Rightarrow>
             (case dispatch fetch args of
                (requests, Inl e) \<Rightarrow> (requests, Inr (ErrorContent e))
              | (requests, Inr results) \<Rightarrow> (requests, Inr (Content results)))))"

section \<open>Stated properties\<close>

text \<open>
  The predicates and the example inputs that the theorems below are stated with. They
  describe what is expected of a returned value; nothing above depends on them.
\<close>

subsection \<open>Counts\<close>

text \<open>
  A returned envelope whose list under \<open>key\<close> is accompanied by a \<open>total_count\<close>
  equal to the list's length; a returned cross table whose \<open>summary.total_records\<close> is
  the length of its \<open>structured_data\<close>.
\<close>

definition count_matches :: "string \<Rightarrow> jv \<Rightarrow> bool" where
  "count_matches key r =
     (case js_get r key of
        JArr xs \<Rightarrow> js_get r ''total_count'' = JNum (Finite (of_nat (length xs)))
      | _ \<Rightarrow> False)"

definition records_match :: "jv \<Rightarrow> bool" where
  "records_match r =
     (case js_get r ''structured_data'' of
        JArr xs \<Rightarrow> js_get (js_get r ''summary'') ''total_records'' = JNum (Finite (of_nat (length xs)))
      | _ \<Rightarrow> False)"

text \<open>
  An outcome that is a returned envelope with an empty list under \<open>key\<close> and
  \<open>total_count = 0\<close>; an outcome that is a returned cross table with no records.
\<close>

definition returns_empty :: "string \<Rightarrow> jv outcome \<Rightarrow> bool" where
  "returns_empty key out =
     (case snd out of
        Inl e \<Rightarrow> False
      | Inr r \<Rightarrow> js_get r key = JArr [] \<and> js_get r ''total_count'' = JNum (Finite 0))"

definition returns_empty_table :: "jv outcome \<Rightarrow> bool" where
  "returns_empty_table out =
     (case snd out of
        Inl e \<Rightarrow> False
      | Inr r \<Rightarrow>
          js_get r ''structured_data'' = JArr [] \<and>
          js_get r ''summary'' =
            JObj [(''unique_countries'', JNum (Finite 0)),
                  (''unique_years'', JNum (Finite 0)),
                  (''total_records'', JNum (Finite 0))])"

text \<open>
  The number of distinct values of a list, as JavaScript tells values apart: primitive
  values by their value, arrays and objects by identity (each one decoded from the payload
  is distinct from every other).
\<close>

definition distinct_values :: "jv list \<Rightarrow> nat" where
  "distinct_values vs =
     card (set (filter primitive vs)) + length (filter (\<lambda>v. \<not> primitive v) vs)"

text \<open>
  A returned cross table whose summary holds the number of distinct \<open>spatial_dim\<close>
  values, the number of distinct \<open>time_dim\<close> values and the number of records of its
  \<open>structured_data\<close>.
\<close>

definition summary_counts :: "jv \<Rightarrow> bool" where
  "summary_counts r =
     (case js_get r ''structured_data'' of
        JArr ds \<Rightarrow>
          js_get r ''summary'' =
            JObj [(''unique_countries'',
                     JNum (Finite (of_nat (distinct_values (map (\<lambda>d. js_get d ''spatial_dim'') ds))))),
                  (''unique_years'',
                     JNum (Finite (of_nat (distinct_values (map (\<lambda>d. js_get d ''time_dim'') ds))))),
                  (''total_records'', JNum (Finite (of_nat (length ds))))]
      | _ \<Rightarrow> False)"

text \<open>The \<open>$top\<close> parameter as it stands in a query string, when there is one.\<close>

definition top_clause :: "safe_integer option \<Rightarrow> string" where
  "top_clause t =
     (case t of
        None \<Rightarrow> []
      | Some n \<Rightarrow> if n = 0 then [] else ''%24top='' @ show_int (sint n) @ ''&'')"

subsection \<open>Example inputs\<close>

text \<open>
  The payload \<open>{value: [{Code: "USA", Title: "United States"}, {Code: "FRA", Title:
  "France", ParentCode: "EUR"}]}\<close>.
\<close>

definition two_codes :: jv where
  "two_codes = JObj [(''value'', JArr
     [JObj [(''Code'', JStr ''USA''), (''Title'', JStr ''United States'')],
      JObj [(''Code'', JStr ''FRA''), (''Title'', JStr ''France''), (''ParentCode'', JStr ''EUR'')]])]"

text \<open>A payload of five records with duplicate and missing countries and years.\<close>

definition mixed_records :: jv where
  "mixed_records = JObj [(''value'', JArr
     [JObj [(''SpatialDim'', JStr ''USA''), (''TimeDim'', JNum (Finite 2019))],
      JObj [(''SpatialDim'', JStr ''USA''), (''TimeDim'', JNum (Finite 2020))],
      JObj [(''SpatialDim'', JStr ''FRA''), (''TimeDim'', JNum (Finite 2019))],
      JObj [(''TimeDim'', JNum (Finite 2019))],
      JObj []])]"

text \<open>The call \<open>{indicator_code: "X", year: "2015:2020"}\<close>.\<close>

definition range_request :: params where
  "range_request = no_params\<lparr>indicator_code := Some ''X'', year := Some ''2015:2020''\<rparr>"

text \<open>The call \<open>{indicator_code: "X", countries: "USA,FRA", years: "2018:2020"}\<close>.\<close>

definition scenario_request :: params where
  "scenario_request =
     no_params\<lparr>indicator_code := Some ''X'', countries := Some ''USA,FRA'',
                years := Some ''2018:2020''\<rparr>"

text \<open>
  The record \<open>{Value: "12.3", SpatialDim: "USA", TimeDim: 2019}\<close> and the data point
  expected of it for an indicator code.
\<close>

definition scenario_record :: jv where
  "scenario_record =
     JObj [(''Value'', JStr ''12.3''), (''SpatialDim'', JStr ''USA''), (''TimeDim'', JNum (Finite 2019))]"

definition scenario_point :: "string \<Rightarrow> jv" where
  "scenario_point code =
     JObj [(''indicator'', JStr code),
           (''value'', JStr ''12.3''),
           (''numeric_value'', JNull),
           (''display_value'', JStr ''12.3''),
           (''spatial_dim'', JStr ''USA''),
           (''time_dim'', JNum (Finite 2019)),
           (''time_dim_begin'', JStr []),
           (''time_dim_end'', JStr []),
           (''dim1'', JStr []),
           (''dim2'', JStr []),
           (''dim3'', JStr []),
           (''comments'', JStr []),
           (''data_source_code'', JStr [])]"

section \<open>Evaluation\<close>

declare show_nat.simps [simp del]

text \<open>The numbers a \<open>safe_integer\<close> stands for.\<close>

lemma safe_integer_range: "- (2 ^ 53) \<le> sint (n :: safe_integer) \<and> sint n < 2 ^ 53"
  using sint_lt [of n] sint_ge [of n] by simp

lemmas eval_defs = makeWhoODataRequest_def and_then_def collect_def js_opt_get_def js_or_def
  js_length_def Let_def no_params_def

text \<open>The requests an operation makes do not depend on what the transport answers.\<close>

lemma getHealthData_requests:
  "fst (getHealthData fetch p) =
     (case indicator_code p of
        None \<Rightarrow> []
      | Some code \<Rightarrow> if code = [] then [] else [generateWhoODataUrl code (healthQueryParams p)])"
  by (simp add: getHealthData_def Let_def split: option.splits)

lemma getCountryData_requests:
  "fst (getCountryData fetch p) =
     (case indicator_code p of
        None \<Rightarrow> []
      | Some code \<Rightarrow>
          if code = [] then []
          else [generateWhoODataUrl code
                  (healthQueryParams (no_params\<lparr>indicator_code := indicator_code p,
                        filter_param := countryFilter p,
                        top_param := top_param p,
                        orderby := Some ''TimeDim desc''\<rparr>))])"
  by (simp add: getCountryData_def getHealthData_requests split: option.splits)

lemma getCrossTable_requests:
  "fst (getCrossTable fetch p) =
     (case indicator_code p of
        None \<Rightarrow> []
      | Some code \<Rightarrow>
          if code = [] then []
          else [generateWhoODataUrl code
                  (healthQueryParams (no_params\<lparr>indicator_code := indicator_code p,
                           filter_param := crossTableFilter p,
                           top_param := top_default (top_param p),
                           orderby := Some ''SpatialDim, TimeDim desc''\<rparr>))])"
proof -
  let ?q = "no_params\<lparr>indicator_code := indicator_code p,
                           filter_param := crossTableFilter p,
                           top_param := top_default (top_param p),
                           orderby := Some ''SpatialDim, TimeDim desc''\<rparr>"
  have "fst (getCrossTable fetch p) =
          (if truthy_str (indicator_code p) then fst (getHealthData fetch ?q) else [])"
    by (simp add: getCrossTable_def split: prod.splits sum.splits)
  then show ?thesis
    by (simp add: getHealthData_requests split: option.splits)
qed

text \<open>The data of \<open>getHealthData\<close> on a payload whose \<open>value\<close> is a list of records.\<close>

lemma getHealthData_data:
  assumes "indicator_code p = Some code" and "code \<noteq> []"
  shows "map_sum id (\<lambda>r. js_get r ''data'')
           (snd (getHealthData (\<lambda>u. Inr (JObj [(''value'', JArr facts)])) p)) =
         map_sum id JArr (push_each (dataPoint code) facts)"
  using assms
  by (simp add: getHealthData_def makeWhoODataRequest_def collect_def js_opt_get_def and_then_def
      Let_def split: sum.splits)

section \<open>C1: the count that accompanies a result list\<close>

lemma getDimensions_count:
  "snd (getDimensions fetch) = Inr r \<Longrightarrow> count_matches ''dimensions'' r"
  by (auto simp: getDimensions_def Let_def and_then_def count_matches_def js_length_def
           split: sum.splits)

lemma getDimensionCodes_count:
  "snd (getDimensionCodes fetch dc) = Inr r \<Longrightarrow> count_matches ''codes'' r"
  by (auto simp: getDimensionCodes_def Let_def and_then_def count_matches_def js_length_def
           split: sum.splits)

lemma searchIndicators_count:
  "snd (searchIndicators fetch kw) = Inr r \<Longrightarrow> count_matches ''indicators'' r"
  by (auto simp: searchIndicators_def Let_def and_then_def count_matches_def js_length_def
           split: sum.splits)

lemma getHealthData_count:
  "snd (getHealthData fetch p) = Inr r \<Longrightarrow> count_matches ''data'' r"
  by (auto simp: getHealthData_def Let_def and_then_def count_matches_def js_length_def
           split: sum.splits option.splits if_splits)

lemma getCountryData_count:
  "snd (getCountryData fetch p) = Inr r \<Longrightarrow> count_matches ''data'' r"
  by (auto simp: getCountryData_def dest: getHealthData_count split: if_splits)

lemma tableData_records:
  "tableData code h = Inr r \<Longrightarrow> records_match r \<and> js_get r ''total_count'' = JUndefined"
  by (auto simp: tableData_def and_then_def records_match_def js_length_def
           split: sum.splits jv.splits)

lemma getCrossTable_records:
  "snd (getCrossTable fetch p) = Inr r \<Longrightarrow> records_match r \<and> js_get r ''total_count'' = JUndefined"
  by (auto simp: getCrossTable_def dest: tableData_records split: if_splits prod.splits sum.splits)

text \<open>
  Claim C1, as the code has it. Whenever one of \<open>getDimensions\<close>,
  \<open>getDimensionCodes\<close>, \<open>searchIndicators\<close>, \<open>getHealthData\<close> and
  \<open>getCountryData\<close> returns, for any transport (hence any decoded payload) and any
  parameters, its \<open>total_count\<close> is the length of the list it returns
  (\<open>dimensions\<close>, \<open>codes\<close>, \<open>indicators\<close>, \<open>data\<close>). What
  \<open>getCrossTable\<close> returns has no \<open>total_count\<close> field: the length of its
  \<open>structured_data\<close> is \<open>summary.total_records\<close>.
\<close>

theorem total_count_equals_length:
  "(snd (getDimensions fetch) = Inr r_dims \<longrightarrow> count_matches ''dimensions'' r_dims) \<and>
   (snd (getDimensionCodes fetch dc) = Inr r_codes \<longrightarrow> count_matches ''codes'' r_codes) \<and>
   (snd (searchIndicators fetch kw) = Inr r_inds \<longrightarrow> count_matches ''indicators'' r_inds) \<and>
   (snd (getHealthData fetch p) = Inr r_health \<longrightarrow> count_matches ''data'' r_health) \<and>
   (snd (getCountryData fetch p) = Inr r_country \<longrightarrow> count_matches ''data'' r_country) \<and>
   (snd (getCrossTable fetch p) = Inr r_cross \<longrightarrow>
      records_match r_cross \<and> js_get r_cross ''total_count'' = JUndefined)"
  using getDimensions_count getDimensionCodes_count searchIndicators_count
    getHealthData_count getCountryData_count getCrossTable_records
  by blast

text \<open>
  The theorem of C1 at the payload of two dimension codes: every operation returns, and the
  count is 2.
\<close>

theorem total_count_equals_length_witness:
  "(\<exists>r. snd (getDimensions (\<lambda>u. Inr two_codes)) = Inr r \<and> count_matches ''dimensions'' r \<and>
        js_get r ''total_count'' = JNum (Finite 2)) \<and>
   (\<exists>r. snd (getDimensionCodes (\<lambda>u. Inr two_codes) (Some ''COUNTRY'')) = Inr r \<and>
        count_matches ''codes'' r \<and> js_get r ''total_count'' = JNum (Finite 2)) \<and>
   (\<exists>r. snd (searchIndicators (\<lambda>u. Inr two_codes) (Some ''life'')) = Inr r \<and>
        count_matches ''indicators'' r \<and> js_get r ''total_count'' = JNum (Finite 2)) \<and>
   (\<exists>r. snd (getHealthData (\<lambda>u. Inr two_codes) (no_params\<lparr>indicator_code := Some ''X''\<rparr>)) = Inr r \<and>
        count_matches ''data'' r \<and> js_get r ''total_count'' = JNum (Finite 2)) \<and>
   (\<exists>r. snd (getCountryData (\<lambda>u. Inr two_codes) (no_params\<lparr>indicator_code := Some ''X''\<rparr>)) = Inr r \<and>
        count_matches ''data'' r \<and> js_get r ''total_count'' = JNum (Finite 2)) \<and>
   (\<exists>r. snd (getCrossTable (\<lambda>u. Inr two_codes) (no_params\<lparr>indicator_code := Some ''X''\<rparr>)) = Inr r \<and>
        records_match r \<and> js_get r ''total_count'' = JUndefined)"
proof -
  let ?f = "\<lambda>u::string. Inr two_codes :: string + jv"
  let ?p = "no_params\<lparr>indicator_code := Some ''X''\<rparr>"
  have "\<exists>r. snd (getDimensions ?f) = Inr r \<and> js_get r ''total_count'' = JNum (Finite 2)"
    by (simp add: getDimensions_def dimension_of_def two_codes_def eval_defs)
  then obtain a where a: "snd (getDimensions ?f) = Inr a" "js_get a ''total_count'' = JNum (Finite 2)"
    by blast
  have "\<exists>r. snd (getDimensionCodes ?f (Some ''COUNTRY'')) = Inr r \<and>
            js_get r ''total_count'' = JNum (Finite 2)"
    by (simp add: getDimensionCodes_def code_of_def two_codes_def eval_defs)
  then obtain b where b: "snd (getDimensionCodes ?f (Some ''COUNTRY'')) = Inr b"
      "js_get b ''total_count'' = JNum (Finite 2)"
    by blast
  have "\<exists>r. snd (searchIndicators ?f (Some ''life'')) = Inr r \<and>
            js_get r ''total_count'' = JNum (Finite 2)"
    by (simp add: searchIndicators_def indicator_of_def two_codes_def eval_defs)
  then obtain c where c: "snd (searchIndicators ?f (Some ''life'')) = Inr c"
      "js_get c ''total_count'' = JNum (Finite 2)"
    by blast
  have h: "\<exists>r. snd (getHealthData ?f ?p) = Inr r \<and> js_get r ''total_count'' = JNum (Finite 2)"
    by (simp add: getHealthData_def dataPoint_def two_codes_def eval_defs)
  then obtain d where d: "snd (getHealthData ?f ?p) = Inr d"
      "js_get d ''total_count'' = JNum (Finite 2)"
    by blast
  have "\<exists>r. snd (getCountryData ?f ?p) = Inr r \<and> js_get r ''total_count'' = JNum (Finite 2)"
    by (simp add: getCountryData_def getHealthData_def dataPoint_def two_codes_def eval_defs)
  then obtain e where e: "snd (getCountryData ?f ?p) = Inr e"
      "js_get e ''total_count'' = JNum (Finite 2)"
    by blast
  have "\<exists>r. snd (getCrossTable ?f ?p) = Inr r"
    by (simp add: getCrossTable_def getHealthData_def tableData_def member_of_def dataPoint_def
        two_codes_def eval_defs)
  then obtain g where g: "snd (getCrossTable ?f ?p) = Inr g"
    by blast
  from a b c d e g
    total_count_equals_length [where fetch = ?f and p = ?p and dc = "Some ''COUNTRY''"
      and kw = "Some ''life''" and r_dims = a and r_codes = b and r_inds = c and r_health = d
      and r_country = e and r_cross = g]
  show ?thesis by blast
qed

text \<open>
  C1 as stated fails for \<open>getCrossTable\<close>: on a payload of two records it returns
  \<open>summary.total_records = 2\<close> and no \<open>total_count\<close>.
\<close>

theorem cross_table_has_no_total_count:
  "map_sum id (\<lambda>r. (js_get (js_get r ''summary'') ''total_records'', js_get r ''total_count''))
     (snd (getCrossTable (\<lambda>u. Inr two_codes) (no_params\<lparr>indicator_code := Some ''X''\<rparr>)))
   = Inr (JNum (Finite 2), JUndefined)"
  by (simp add: getCrossTable_def getHealthData_def tableData_def member_of_def dataPoint_def
      two_codes_def eval_defs)

section \<open>C2: payloads without a value list\<close>

lemma collect_falsy: "\<not> truthy (js_opt_get payload ''value'') \<Longrightarrow> collect f payload = Inr []"
  by (simp add: collect_def)

lemma getHealthData_falsy:
  assumes "\<not> truthy (js_opt_get payload ''value'')" and "truthy_str (indicator_code p)"
  shows "returns_empty ''data'' (getHealthData (\<lambda>u. Inr payload) p)"
proof -
  from assms(2) obtain code where c: "indicator_code p = Some code" "code \<noteq> []"
    by (cases "indicator_code p") auto
  show ?thesis
    using c collect_falsy [OF assms(1)]
    by (simp add: getHealthData_def returns_empty_def makeWhoODataRequest_def and_then_def
        js_length_def Let_def)
qed

lemma getCrossTable_falsy:
  assumes "\<not> truthy (js_opt_get payload ''value'')" and "truthy_str (indicator_code p)"
  shows "returns_empty_table (getCrossTable (\<lambda>u. Inr payload) p)"
proof -
  from assms(2) obtain code where c: "indicator_code p = Some code" "code \<noteq> []"
    by (cases "indicator_code p") auto
  show ?thesis
    using c collect_falsy [OF assms(1)]
    by (simp add: getCrossTable_def getHealthData_def tableData_def returns_empty_table_def
        makeWhoODataRequest_def and_then_def js_length_def Let_def new_Set_def)
qed

text \<open>
  Claim C2, as the code has it. The guard is \<open>if (result?.value)\<close>: when the payload's
  \<open>value\<close> is absent or \<open>null\<close> (or the payload itself is \<open>null\<close>), or is any
  other falsy value (\<open>false\<close>, \<open>0\<close>, the empty string), every operation returns an
  empty result list with \<open>total_count = 0\<close> and raises nothing; \<open>getCrossTable\<close>
  returns an empty \<open>structured_data\<close> and a summary of zeros. The operations that need
  an indicator code are given one.
\<close>

theorem falsy_value_gives_empty_result:
  assumes "\<not> truthy (js_opt_get payload ''value'')"
  shows "returns_empty ''dimensions'' (getDimensions (\<lambda>u. Inr payload)) \<and>
         returns_empty ''codes'' (getDimensionCodes (\<lambda>u. Inr payload) dc) \<and>
         returns_empty ''indicators'' (searchIndicators (\<lambda>u. Inr payload) kw) \<and>
         (truthy_str (indicator_code p) \<longrightarrow>
            returns_empty ''data'' (getHealthData (\<lambda>u. Inr payload) p) \<and>
            returns_empty ''data'' (getCountryData (\<lambda>u. Inr payload) p) \<and>
            returns_empty_table (getCrossTable (\<lambda>u. Inr payload) p))"
proof -
  note c = collect_falsy [OF assms]
  have 1: "returns_empty ''dimensions'' (getDimensions (\<lambda>u. Inr payload))"
    by (simp add: getDimensions_def returns_empty_def makeWhoODataRequest_def and_then_def
        js_length_def Let_def c)
  have 2: "returns_empty ''codes'' (getDimensionCodes (\<lambda>u. Inr payload) dc)"
    by (simp add: getDimensionCodes_def returns_empty_def makeWhoODataRequest_def and_then_def
        js_length_def Let_def c)
  have 3: "returns_empty ''indicators'' (searchIndicators (\<lambda>u. Inr payload) kw)"
    by (simp add: searchIndicators_def returns_empty_def makeWhoODataRequest_def and_then_def
        js_length_def Let_def c)
  have 4: "returns_empty ''data'' (getHealthData (\<lambda>u. Inr payload) q)"
    if "truthy_str (indicator_code q)" for q
    using assms that by (rule getHealthData_falsy)
  have 5: "returns_empty ''data'' (getCountryData (\<lambda>u. Inr payload) p)"
    if "truthy_str (indicator_code p)"
    using that 4 [of "no_params\<lparr>indicator_code := indicator_code p,
        filter_param := countryFilter p, top_param := top_param p,
        orderby := Some ''TimeDim desc''\<rparr>"]
    by (simp add: getCountryData_def)
  have 6: "returns_empty_table (getCrossTable (\<lambda>u. Inr payload) p)"
    if "truthy_str (indicator_code p)"
    using assms that by (rule getCrossTable_falsy)
  from 1 2 3 4 5 6 show ?thesis by blast
qed

text \<open>
  The theorem of C2 at a payload whose \<open>value\<close> is \<open>null\<close> and at the payload
  \<open>{}\<close>, where it is absent.
\<close>

theorem falsy_value_gives_empty_result_witness:
  "\<not> truthy (js_opt_get (JObj [(''value'', JNull)]) ''value'') \<and>
   \<not> truthy (js_opt_get (JObj []) ''value'') \<and>
   truthy_str (indicator_code (no_params\<lparr>indicator_code := Some ''X''\<rparr>)) \<and>
   returns_empty ''dimensions'' (getDimensions (\<lambda>u. Inr (JObj [(''value'', JNull)]))) \<and>
   returns_empty ''codes'' (getDimensionCodes (\<lambda>u. Inr (JObj [])) (Some ''COUNTRY'')) \<and>
   returns_empty ''indicators'' (searchIndicators (\<lambda>u. Inr (JObj [])) (Some ''life'')) \<and>
   returns_empty ''data''
     (getHealthData (\<lambda>u. Inr (JObj [(''value'', JNull)])) (no_params\<lparr>indicator_code := Some ''X''\<rparr>)) \<and>
   returns_empty ''data''
     (getCountryData (\<lambda>u. Inr (JObj [(''value'', JNull)])) (no_params\<lparr>indicator_code := Some ''X''\<rparr>)) \<and>
   returns_empty_table
     (getCrossTable (\<lambda>u. Inr (JObj [(''value'', JNull)])) (no_params\<lparr>indicator_code := Some ''X''\<rparr>))"
proof -
  have a: "\<not> truthy (js_opt_get (JObj [(''value'', JNull)]) ''value'')"
    by (simp add: js_opt_get_def)
  have b: "\<not> truthy (js_opt_get (JObj []) ''value'')"
    by (simp add: js_opt_get_def)
  have c: "truthy_str (indicator_code (no_params\<lparr>indicator_code := Some ''X''\<rparr>))"
    by simp
  from a b c
    falsy_value_gives_empty_result [OF a, where p = "no_params\<lparr>indicator_code := Some ''X''\<rparr>"]
    falsy_value_gives_empty_result [OF b, where dc = "Some ''COUNTRY''" and kw = "Some ''life''"]
  show ?thesis by blast
qed

text \<open>
  C2 as stated fails for a \<open>value\<close> that is present and not a list: the number \<open>5\<close>
  is not iterable and \<open>getDimensions\<close> throws a \<open>TypeError\<close>; the string \<open>"ab"\<close>
  is iterated by character and \<open>getDimensions\<close> returns two entries,
  \<open>total_count = 2\<close>.
\<close>

theorem non_list_value_counterexample:
  "snd (getDimensions (\<lambda>u. Inr (JObj [(''value'', JNum (Finite 5))]))) = Inl TypeError \<and>
   map_sum id (\<lambda>r. js_get r ''total_count'')
     (snd (getDimensions (\<lambda>u. Inr (JObj [(''value'', JStr ''ab'')])))) = Inr (JNum (Finite 2))"
  by (simp add: getDimensions_def dimension_of_def is_continuation_def eval_defs)

section \<open>C3: the year clause\<close>

lemma range_request_filter: "countryFilter range_request = Some ''TimeDim eq 2015:2020''"
  by code_simp

lemma range_request_params:
  "healthQueryParams
     (no_params\<lparr>indicator_code := Some ''X'', filter_param := Some ''TimeDim eq 2015:2020'',
                top_param := None, orderby := Some ''TimeDim desc''\<rparr>) =
   [(''$filter'', Some (QStr ''TimeDim eq 2015:2020'')), (''$orderby'', Some (QStr ''TimeDim desc''))]"
  by code_simp

lemma range_request_url:
  "generateWhoODataUrl ''X''
     [(''$filter'', Some (QStr ''TimeDim eq 2015:2020'')), (''$orderby'', Some (QStr ''TimeDim desc''))] =
   ''https://ghoapi.azureedge.net/api/X?%24filter=TimeDim+eq+2015%3A2020&%24orderby=TimeDim+desc''"
  by code_simp

lemma cross_table_range_filter:
  "crossTableFilter (no_params\<lparr>indicator_code := Some ''X'', years := Some ''2015:2020''\<rparr>) =
     Some ''TimeDim ge 2015 and TimeDim le 2020''"
  by code_simp

text \<open>
  What the two operations derive from a year, in general. \<open>getCrossTable\<close> takes the
  text before the first \<open>:\<close> and the text between the first and the second as the
  bounds of a range; \<open>getCountryData\<close> renders every year as an equality.
\<close>

lemma js_split_takeWhile:
  "js_split c s =
     takeWhile (\<lambda>x. x \<noteq> c) s #
     (case dropWhile (\<lambda>x. x \<noteq> c) s of [] \<Rightarrow> [] | x # rest \<Rightarrow> js_split c rest)"
  by (induction s) (auto split: list.splits)

lemma cross_table_years_clause:
  assumes "\<not> truthy_str (countries p)" and "\<not> truthy_str (sex p)"
    and "years p = Some y" and "y \<noteq> []"
  shows "crossTableFilter p =
           Some (if CHR '':'' \<in> set y
                 then ''TimeDim ge '' @ takeWhile (\<lambda>x. x \<noteq> CHR '':'') y @ '' and TimeDim le '' @
                      takeWhile (\<lambda>x. x \<noteq> CHR '':'') (tl (dropWhile (\<lambda>x. x \<noteq> CHR '':'') y))
                 else ''TimeDim eq '' @ y)"
proof (cases "CHR '':'' \<in> set y")
  case True
  define rest where "rest = tl (dropWhile (\<lambda>x. x \<noteq> CHR '':'') y)"
  from True have ne: "dropWhile (\<lambda>x. x \<noteq> CHR '':'') y \<noteq> []"
    by (auto simp: dropWhile_eq_Nil_conv)
  then have "\<not> hd (dropWhile (\<lambda>x. x \<noteq> CHR '':'') y) \<noteq> CHR '':''"
    by (rule hd_dropWhile)
  with ne have rest: "dropWhile (\<lambda>x. x \<noteq> CHR '':'') y = CHR '':'' # rest"
    by (cases "dropWhile (\<lambda>x. x \<noteq> CHR '':'') y") (simp_all add: rest_def)
  have "js_split (CHR '':'') y =
          takeWhile (\<lambda>x. x \<noteq> CHR '':'') y # js_split (CHR '':'') rest"
    using js_split_takeWhile [of "CHR '':''" y] rest by simp
  moreover have "js_split (CHR '':'') rest =
      takeWhile (\<lambda>x. x \<noteq> CHR '':'') rest #
      (case dropWhile (\<lambda>x. x \<noteq> CHR '':'') rest of [] \<Rightarrow> [] | x # r \<Rightarrow> js_split (CHR '':'') r)"
    by (rule js_split_takeWhile)
  ultimately obtain more where parts:
    "js_split (CHR '':'') y =
       takeWhile (\<lambda>x. x \<noteq> CHR '':'') y # takeWhile (\<lambda>x. x \<noteq> CHR '':'') rest # more"
    by simp
  moreover from rest have "tl (dropWhile (\<lambda>x. x \<noteq> CHR '':'') y) = rest"
    by simp
  ultimately show ?thesis
    using assms True
    by (simp add: crossTableFilter_def js_includes_def nth_tmpl_def)
next
  case False
  with assms show ?thesis
    by (simp add: crossTableFilter_def js_includes_def)
qed

lemma country_data_year_clause:
  assumes "\<not> truthy_str (country_code p)" and "\<not> truthy_str (sex p)"
    and "year p = Some y" and "y \<noteq> []"
  shows "countryFilter p = Some (''TimeDim eq '' @ y)"
  using assms by (simp add: countryFilter_def)

text \<open>
  Claim C3 at \<open>getCountryData({indicator_code: "X", year: "2015:2020"})\<close>: the year is
  not tested for the separator, the derived filter is the equality
  \<open>TimeDim eq 2015:2020\<close> and that is what is requested, where the claim (with the
  tool's description of \<open>year\<close> as "specific year or year range", and as
  \<open>getCrossTable\<close> does for \<open>years\<close>) has the range
  \<open>TimeDim ge 2015 and TimeDim le 2020\<close>.
\<close>

theorem country_data_year_range_is_an_equality:
  "countryFilter range_request = Some ''TimeDim eq 2015:2020'' \<and>
   fst (getCountryData fetch range_request) =
     [''https://ghoapi.azureedge.net/api/X?%24filter=TimeDim+eq+2015%3A2020&%24orderby=TimeDim+desc''] \<and>
   crossTableFilter (no_params\<lparr>indicator_code := Some ''X'', years := Some ''2015:2020''\<rparr>) =
     Some ''TimeDim ge 2015 and TimeDim le 2020''"
proof -
  have "indicator_code range_request = Some ''X''" "top_param range_request = None"
    by (simp_all add: range_request_def no_params_def)
  then have "fst (getCountryData fetch range_request) =
     [''https://ghoapi.azureedge.net/api/X?%24filter=TimeDim+eq+2015%3A2020&%24orderby=TimeDim+desc'']"
    by (simp add: getCountryData_requests range_request_filter range_request_params
        range_request_url)
  with range_request_filter cross_table_range_filter show ?thesis by simp
qed

section \<open>C4: a missing dimension code or keywords\<close>

text \<open>
  Claim C4. The parameter mapping of these two operations is the one of the tool call:
  the handler reads \<open>dimension_code\<close> and \<open>keywords\<close> from it, and calls
  \<open>getDimensionCodes\<close> and \<open>searchIndicators\<close>, which take the bare argument,
  only when it is there. For every parameter mapping of a \<open>get_dimension_codes\<close> call
  without \<open>dimension_code\<close>, and of a \<open>search_indicators\<close> call without
  \<open>keywords\<close>, and whatever the transport would answer, the operation fails with the
  error that names the missing parameter and no request is made; the handler reports
  that error as its response.
\<close>

theorem missing_dimension_code_or_keywords:
  "(method_param args = Some ''get_dimension_codes'' \<and> dimension_code args = None \<longrightarrow>
      dispatch fetch args =
        ([], Inl (Error ''dimension_code parameter is required for get_dimension_codes'')) \<and>
      callTool fetch ''who-health'' (Some args) =
        ([], Inr (ErrorContent
                   (Error ''dimension_code parameter is required for get_dimension_codes'')))) \<and>
   (method_param args = Some ''search_indicators'' \<and> keywords_param args = None \<longrightarrow>
      dispatch fetch args =
        ([], Inl (Error ''keywords parameter is required for search_indicators'')) \<and>
      callTool fetch ''who-health'' (Some args) =
        ([], Inr (ErrorContent (Error ''keywords parameter is required for search_indicators''))))"
  by (simp add: dispatch_def callTool_def Let_def)

text \<open>The theorem of C4 at calls that give the method only.\<close>

theorem missing_dimension_code_or_keywords_witness:
  "dispatch (\<lambda>u. Inr two_codes) (no_params\<lparr>method_param := Some ''get_dimension_codes''\<rparr>) =
     ([], Inl (Error ''dimension_code parameter is required for get_dimension_codes'')) \<and>
   callTool (\<lambda>u. Inr two_codes) ''who-health''
       (Some (no_params\<lparr>method_param := Some ''search_indicators''\<rparr>)) =
     ([], Inr (ErrorContent (Error ''keywords parameter is required for search_indicators'')))"
  using missing_dimension_code_or_keywords
          [of "no_params\<lparr>method_param := Some ''get_dimension_codes''\<rparr>" "\<lambda>u. Inr two_codes"]
        missing_dimension_code_or_keywords
          [of "no_params\<lparr>method_param := Some ''search_indicators''\<rparr>" "\<lambda>u. Inr two_codes"]
  by (simp add: no_params_def)

section \<open>C5: a missing indicator code\<close>

text \<open>
  Claim C5. For every parameter mapping without \<open>indicator_code\<close>, and whatever the
  transport would answer, each of \<open>getHealthData\<close>, \<open>getCountryData\<close> and
  \<open>getCrossTable\<close> throws the error that names the missing parameter and makes no
  request; so does the handler's own test, which comes first when the call is a tool
  call.
\<close>

theorem missing_indicator_code:
  assumes "indicator_code p = None"
  shows "getHealthData fetch p = ([], Inl (Error ''indicator_code parameter is required'')) \<and>
         getCountryData fetch p = ([], Inl (Error ''indicator_code parameter is required'')) \<and>
         getCrossTable fetch p = ([], Inl (Error ''indicator_code parameter is required'')) \<and>
         (method_param p = Some ''get_health_data'' \<longrightarrow>
            dispatch fetch p =
              ([], Inl (Error ''indicator_code parameter is required for get_health_data''))) \<and>
         (method_param p = Some ''get_country_data'' \<longrightarrow>
            dispatch fetch p =
              ([], Inl (Error ''indicator_code parameter is required for get_country_data''))) \<and>
         (method_param p = Some ''get_cross_table'' \<longrightarrow>
            dispatch fetch p =
              ([], Inl (Error ''indicator_code parameter is required for get_cross_table'')))"
  using assms
  by (simp add: getHealthData_def getCountryData_def getCrossTable_def dispatch_def Let_def)

text \<open>The theorem of C5 at the empty parameter mapping and at calls that give the method only.\<close>

theorem missing_indicator_code_witness:
  "indicator_code no_params = None \<and>
   getHealthData (\<lambda>u. Inr two_codes) no_params =
     ([], Inl (Error ''indicator_code parameter is required'')) \<and>
   getCountryData (\<lambda>u. Inr two_codes) no_params =
     ([], Inl (Error ''indicator_code parameter is required'')) \<and>
   getCrossTable (\<lambda>u. Inr two_codes) no_params =
     ([], Inl (Error ''indicator_code parameter is required'')) \<and>
   dispatch (\<lambda>u. Inr two_codes) (no_params\<lparr>method_param := Some ''get_cross_table''\<rparr>) =
     ([], Inl (Error ''indicator_code parameter is required for get_cross_table''))"
proof -
  have a: "indicator_code no_params = None"
    by (simp add: no_params_def)
  have b: "indicator_code (no_params\<lparr>method_param := Some ''get_cross_table''\<rparr>) = None"
    by (simp add: no_params_def)
  from a missing_indicator_code [OF a, of "\<lambda>u. Inr two_codes"]
    missing_indicator_code [OF b, of "\<lambda>u. Inr two_codes"]
  show ?thesis by simp
qed

section \<open>C6: the summary of a cross table\<close>

lemma push_each_member_of:
  "push_each (member_of k) ds = Inr ys \<Longrightarrow> ys = map (\<lambda>d. js_get d k) ds"
proof (induction ds arbitrary: ys)
  case Nil
  then show ?case by simp
next
  case (Cons d ds)
  then show ?case
    by (auto simp: and_then_def member_of_def split: sum.splits if_splits)
qed

lemma foldl_set_add:
  assumes "distinct (filter primitive s)"
  shows "length (foldl set_add s vs) =
           card (set (filter primitive (s @ vs))) + length (filter (\<lambda>v. \<not> primitive v) (s @ vs))"
  using assms
proof (induction vs arbitrary: s)
  case Nil
  have "length s = length (filter primitive s) + length (filter (\<lambda>v. \<not> primitive v) s)"
    by (rule sum_length_filter_compl [symmetric])
  moreover from Nil have "card (set (filter primitive s)) = length (filter primitive s)"
    by (rule distinct_card)
  ultimately show ?case
    by (simp del: set_filter)
next
  case (Cons v vs)
  show ?case
  proof (cases "primitive v \<and> v \<in> set s")
    case True
    then have step: "foldl set_add s (v # vs) = foldl set_add s vs"
      by (simp add: set_add_def)
    from True have "set (filter primitive (s @ v # vs)) = set (filter primitive (s @ vs))"
      by auto
    moreover from True
    have "filter (\<lambda>v. \<not> primitive v) (s @ v # vs) = filter (\<lambda>v. \<not> primitive v) (s @ vs)"
      by simp
    ultimately show ?thesis
      using Cons.IH [OF Cons.prems] step by (simp only:)
  next
    case False
    then have "set_add s v = s @ [v]"
      by (auto simp: set_add_def)
    then have step: "foldl set_add s (v # vs) = foldl set_add (s @ [v]) vs"
      by simp
    from False Cons.prems have "distinct (filter primitive (s @ [v]))"
      by auto
    from Cons.IH [OF this] have
      "length (foldl set_add (s @ [v]) vs) =
         card (set (filter primitive ((s @ [v]) @ vs))) +
         length (filter (\<lambda>v. \<not> primitive v) ((s @ [v]) @ vs))" .
    moreover have "(s @ [v]) @ vs = s @ v # vs"
      by simp
    ultimately show ?thesis
      using step by (simp only:)
  qed
qed

lemma length_new_Set: "length (new_Set vs) = distinct_values vs"
  using foldl_set_add [of "[]" vs]
  by (simp add: new_Set_def distinct_values_def)

lemma distinct_values_primitive:
  "list_all primitive vs \<Longrightarrow> distinct_values vs = card (set vs)"
  by (simp add: distinct_values_def list_all_iff filter_id_conv)

lemma tableData_summary: "tableData code h = Inr r \<Longrightarrow> summary_counts r"
  by (auto simp: tableData_def and_then_def summary_counts_def js_length_def length_new_Set
           dest!: push_each_member_of split: sum.splits jv.splits)

text \<open>
  Claim C6. Whenever \<open>getCrossTable\<close> returns, for any transport and parameters, the
  summary's \<open>unique_countries\<close> is the number of distinct \<open>spatial_dim\<close> values of
  \<open>structured_data\<close>, \<open>unique_years\<close> the number of distinct \<open>time_dim\<close> values,
  and \<open>total_records\<close> the length of \<open>structured_data\<close>. Values are told apart as
  JavaScript does (\<open>distinct_values\<close>); the empty string of a missing value is one of
  the values.
\<close>

theorem cross_table_summary_counts:
  assumes "snd (getCrossTable fetch p) = Inr r"
  shows "summary_counts r"
  using assms
  by (auto simp: getCrossTable_def dest: tableData_summary split: if_splits prod.splits sum.splits)

text \<open>
  The theorem of C6 at a payload of five records with duplicate and missing values: three
  distinct countries (\<open>USA\<close>, \<open>FRA\<close> and the empty string), three distinct years.
\<close>

theorem cross_table_summary_counts_witness:
  "\<exists>r. snd (getCrossTable (\<lambda>u. Inr mixed_records) (no_params\<lparr>indicator_code := Some ''X''\<rparr>)) = Inr r \<and>
       summary_counts r \<and>
       js_get r ''summary'' =
         JObj [(''unique_countries'', JNum (Finite 3)),
               (''unique_years'', JNum (Finite 3)),
               (''total_records'', JNum (Finite 5))]"
proof -
  have "\<exists>r. snd (getCrossTable (\<lambda>u. Inr mixed_records) (no_params\<lparr>indicator_code := Some ''X''\<rparr>)) = Inr r \<and>
       js_get r ''summary'' =
         JObj [(''unique_countries'', JNum (Finite 3)),
               (''unique_years'', JNum (Finite 3)),
               (''total_records'', JNum (Finite 5))]"
    by (simp add: getCrossTable_def getHealthData_def tableData_def member_of_def dataPoint_def
        mixed_records_def new_Set_def set_add_def eval_defs)
  then obtain r where
    r: "snd (getCrossTable (\<lambda>u. Inr mixed_records) (no_params\<lparr>indicator_code := Some ''X''\<rparr>)) = Inr r"
      "js_get r ''summary'' =
         JObj [(''unique_countries'', JNum (Finite 3)),
               (''unique_years'', JNum (Finite 3)),
               (''total_records'', JNum (Finite 5))]"
    by blast
  from r cross_table_summary_counts [OF r(1)] show ?thesis by blast
qed

section \<open>C7: the cross-table scenario\<close>

lemma scenario_filter:
  "crossTableFilter scenario_request =
     Some ((''SpatialDim in ('' @ [squote] @ ''USA'' @ [squote] @ '','' @
              [squote] @ ''FRA'' @ [squote] @ '')'') @
           '' and '' @ ''TimeDim ge 2018 and TimeDim le 2020'')"
  by code_simp

lemma scenario_url:
  "generateWhoODataUrl ''X''
     (healthQueryParams
        (no_params\<lparr>indicator_code := Some ''X'',
                   filter_param := crossTableFilter scenario_request,
                   top_param := Some 1000,
                   orderby := Some ''SpatialDim, TimeDim desc''\<rparr>)) =
   ''https://ghoapi.azureedge.net/api/X?%24filter=SpatialDim+in+%28%27USA%27%2C%27FRA%27%29+and+TimeDim+ge+2018+and+TimeDim+le+2020&%24top=1000&%24orderby=SpatialDim%2C+TimeDim+desc''"
  by code_simp

text \<open>
  Claim C7. For \<open>getCrossTable({indicator_code: "X", countries: "USA,FRA", years:
  "2018:2020"})\<close> the derived filter is the clause \<open>SpatialDim in ('USA','FRA')\<close>, then
  \<open>' and '\<close>, then the clause \<open>TimeDim ge 2018 and TimeDim le 2020\<close> (the quote
  character is written \<open>squote\<close>); and this filter is what the one request carries.
\<close>

theorem cross_table_scenario_filter:
  "crossTableFilter scenario_request =
     Some ((''SpatialDim in ('' @ [squote] @ ''USA'' @ [squote] @ '','' @
              [squote] @ ''FRA'' @ [squote] @ '')'') @
           '' and '' @ ''TimeDim ge 2018 and TimeDim le 2020'') \<and>
   fst (getCrossTable fetch scenario_request) =
     [''https://ghoapi.azureedge.net/api/X?%24filter=SpatialDim+in+%28%27USA%27%2C%27FRA%27%29+and+TimeDim+ge+2018+and+TimeDim+le+2020&%24top=1000&%24orderby=SpatialDim%2C+TimeDim+desc'']"
proof -
  have "indicator_code scenario_request = Some ''X''" "top_param scenario_request = None"
    by (simp_all add: scenario_request_def no_params_def)
  then have "fst (getCrossTable fetch scenario_request) =
     [''https://ghoapi.azureedge.net/api/X?%24filter=SpatialDim+in+%28%27USA%27%2C%27FRA%27%29+and+TimeDim+ge+2018+and+TimeDim+le+2020&%24top=1000&%24orderby=SpatialDim%2C+TimeDim+desc'']"
    by (simp add: getCrossTable_requests scenario_url)
  with scenario_filter show ?thesis by simp
qed

section \<open>C8: no constraint, no filter\<close>

lemma encode_digit: "d < 10 \<Longrightarrow> encode_byte (digit_char d) = [digit_char d]"
proof -
  assume "d < 10"
  then have "d = 0 \<or> d = 1 \<or> d = 2 \<or> d = 3 \<or> d = 4 \<or> d = 5 \<or> d = 6 \<or> d = 7 \<or>
      d = 8 \<or> d = 9"
    by arith
  then show ?thesis
    by (elim disjE) (simp_all add: encode_byte_def unreserved_def digit_char_def)
qed

lemma urlencode_append: "urlencode (xs @ ys) = urlencode xs @ urlencode ys"
  by (simp add: urlencode_def)

lemma urlencode_show_nat: "urlencode (show_nat n) = show_nat n"
proof (induction n rule: show_nat.induct)
  case (1 n)
  show ?case
  proof (cases "n < 10")
    case True
    then show ?thesis
      by (simp add: show_nat.simps [of n] urlencode_def encode_digit)
  next
    case False
    have "n mod 10 < 10" by simp
    then have "urlencode [digit_char (n mod 10)] = [digit_char (n mod 10)]"
      by (simp add: urlencode_def encode_digit)
    with False 1 show ?thesis
      by (simp add: show_nat.simps [of n] urlencode_append)
  qed
qed

lemma urlencode_show_int: "urlencode (show_int i) = show_int i"
proof -
  have "urlencode (CHR ''-'' # s) = CHR ''-'' # urlencode s" for s
    by (simp add: urlencode_def encode_byte_def unreserved_def)
  then show ?thesis
    by (simp add: show_int_def urlencode_show_nat)
qed

lemma urlencode_top: "urlencode ''$top'' = ''%24top''"
  by code_simp

lemma urlencode_orderby: "urlencode ''$orderby'' = ''%24orderby''"
  by code_simp

lemma urlencode_time_desc: "urlencode ''TimeDim desc'' = ''TimeDim+desc''"
  by code_simp

lemma urlencode_spatial_time_desc:
  "urlencode ''SpatialDim, TimeDim desc'' = ''SpatialDim%2C+TimeDim+desc''"
  by code_simp

lemma show_nat_nonempty: "show_nat n \<noteq> []"
  by (simp add: show_nat.simps [of n])

lemma show_int_nonempty: "show_int i \<noteq> []"
  by (simp add: show_int_def show_nat_nonempty)

text \<open>The URL of a request without a filter: an optional \<open>$top\<close>, then \<open>$orderby\<close>.\<close>

lemma unfiltered_url:
  assumes "code \<noteq> []" and "\<not> truthy_str (filter_param q)" and "orderby q = Some ord"
    and "ord \<noteq> []"
  shows "generateWhoODataUrl code (healthQueryParams q) =
           WHO_ODATA_BASE_URL @ ''/'' @ code @ ''?'' @ top_clause (top_param q) @
           ''%24orderby='' @ urlencode ord"
proof (cases "top_param q")
  case None
  with assms show ?thesis
    by (simp add: generateWhoODataUrl_def healthQueryParams_def serialize_def top_clause_def
        urlencode_orderby Let_def)
next
  case (Some n)
  with assms show ?thesis
    by (simp add: generateWhoODataUrl_def healthQueryParams_def serialize_def top_clause_def
        urlencode_orderby urlencode_top urlencode_show_int show_int_nonempty number_string_def
        Let_def)
qed

text \<open>
  Claim C8. For every parameter mapping in which no constraint is set (\<open>country_code\<close>,
  \<open>year\<close>, \<open>sex\<close> for \<open>getCountryData\<close>; \<open>countries\<close>, \<open>years\<close>, \<open>sex\<close>
  for \<open>getCrossTable\<close>; absent, or the empty string), the derived filter is \<open>null\<close>,
  and the URL requested (there is one when the indicator code is given) has the query
  string \<open>$top\<close> (when there is one; 1000 by default in \<open>getCrossTable\<close>) and
  \<open>$orderby\<close>, with no \<open>$filter\<close> parameter. The \<open>top\<close> of the mapping is an
  integer that JavaScript holds exactly (\<open>safe_integer\<close>), printed in decimal.
\<close>

theorem no_constraint_no_filter:
  "(\<not> truthy_str (country_code p) \<and> \<not> truthy_str (year p) \<and> \<not> truthy_str (sex p) \<longrightarrow>
      countryFilter p = None \<and>
      (indicator_code p = Some code \<and> code \<noteq> [] \<longrightarrow>
         fst (getCountryData fetch p) =
           [WHO_ODATA_BASE_URL @ ''/'' @ code @ ''?'' @ top_clause (top_param p) @
            ''%24orderby=TimeDim+desc''])) \<and>
   (\<not> truthy_str (countries p) \<and> \<not> truthy_str (years p) \<and> \<not> truthy_str (sex p) \<longrightarrow>
      crossTableFilter p = None \<and>
      (indicator_code p = Some code \<and> code \<noteq> [] \<longrightarrow>
         fst (getCrossTable fetch p) =
           [WHO_ODATA_BASE_URL @ ''/'' @ code @ ''?'' @
            (case top_param p of None \<Rightarrow> ''%24top=1000&'' | Some n \<Rightarrow> top_clause (Some n)) @
            ''%24orderby=SpatialDim%2C+TimeDim+desc'']))"
proof -
  have country: "countryFilter p = None"
    if "\<not> truthy_str (country_code p)" "\<not> truthy_str (year p)" "\<not> truthy_str (sex p)"
    using that by (simp add: countryFilter_def)
  have cross: "crossTableFilter p = None"
    if "\<not> truthy_str (countries p)" "\<not> truthy_str (years p)" "\<not> truthy_str (sex p)"
    using that by (simp add: crossTableFilter_def)
  have country_url: "fst (getCountryData fetch p) =
      [WHO_ODATA_BASE_URL @ ''/'' @ code @ ''?'' @ top_clause (top_param p) @
       ''%24orderby=TimeDim+desc'']"
    if "countryFilter p = None" "indicator_code p = Some code" "code \<noteq> []"
  proof -
    let ?q = "no_params\<lparr>indicator_code := indicator_code p, filter_param := countryFilter p,
                top_param := top_param p, orderby := Some ''TimeDim desc''\<rparr>"
    have "generateWhoODataUrl code (healthQueryParams ?q) =
            WHO_ODATA_BASE_URL @ ''/'' @ code @ ''?'' @ top_clause (top_param ?q) @
            ''%24orderby='' @ urlencode ''TimeDim desc''"
      using that by (intro unfiltered_url) simp_all
    with that show ?thesis
      by (simp add: getCountryData_requests urlencode_time_desc)
  qed
  have top1000: "top_clause (Some 1000) = ''%24top=1000&''"
    by code_simp
  have cross_url: "fst (getCrossTable fetch p) =
      [WHO_ODATA_BASE_URL @ ''/'' @ code @ ''?'' @
       (case top_param p of None \<Rightarrow> ''%24top=1000&'' | Some n \<Rightarrow> top_clause (Some n)) @
       ''%24orderby=SpatialDim%2C+TimeDim+desc'']"
    if "crossTableFilter p = None" "indicator_code p = Some code" "code \<noteq> []"
  proof -
    let ?q = "no_params\<lparr>indicator_code := indicator_code p, filter_param := crossTableFilter p,
                top_param := top_default (top_param p),
                orderby := Some ''SpatialDim, TimeDim desc''\<rparr>"
    have "generateWhoODataUrl code (healthQueryParams ?q) =
            WHO_ODATA_BASE_URL @ ''/'' @ code @ ''?'' @ top_clause (top_param ?q) @
            ''%24orderby='' @ urlencode ''SpatialDim, TimeDim desc''"
      using that by (intro unfiltered_url) simp_all
    moreover have "top_clause (top_default (top_param p)) =
        (case top_param p of None \<Rightarrow> ''%24top=1000&'' | Some n \<Rightarrow> top_clause (Some n))"
      by (cases "top_param p") (simp_all add: top1000)
    ultimately show ?thesis
      using that by (simp add: getCrossTable_requests urlencode_spatial_time_desc)
  qed
  from country cross country_url cross_url show ?thesis by blast
qed

text \<open>
  The theorem of C8 at a call that gives the indicator code and \<open>top = 5\<close> only, and at
  one that gives the indicator code only.
\<close>

theorem no_constraint_no_filter_witness:
  "countryFilter (no_params\<lparr>indicator_code := Some ''X'', top_param := Some 5\<rparr>) = None \<and>
   fst (getCountryData (\<lambda>u. Inr two_codes)
          (no_params\<lparr>indicator_code := Some ''X'', top_param := Some 5\<rparr>)) =
     [''https://ghoapi.azureedge.net/api/X?%24top=5&%24orderby=TimeDim+desc''] \<and>
   crossTableFilter (no_params\<lparr>indicator_code := Some ''X''\<rparr>) = None \<and>
   fst (getCrossTable (\<lambda>u. Inr two_codes) (no_params\<lparr>indicator_code := Some ''X''\<rparr>)) =
     [''https://ghoapi.azureedge.net/api/X?%24top=1000&%24orderby=SpatialDim%2C+TimeDim+desc'']"
proof -
  have five: "top_clause (Some 5) = ''%24top=5&''"
    by code_simp
  from no_constraint_no_filter
         [of "no_params\<lparr>indicator_code := Some ''X'', top_param := Some 5\<rparr>" "''X''"
             "\<lambda>u. Inr two_codes"]
       no_constraint_no_filter
         [of "no_params\<lparr>indicator_code := Some ''X''\<rparr>" "''X''" "\<lambda>u. Inr two_codes"]
  show ?thesis
    by (simp add: no_params_def WHO_ODATA_BASE_URL_def five)
qed

section \<open>C9: the health-data scenario\<close>

lemma scenario_dataPoint: "dataPoint code scenario_record = Inr (scenario_point code)"
  by (simp add: dataPoint_def scenario_record_def scenario_point_def js_or_def)

text \<open>
  Claim C9. The record \<open>{Value: "12.3", SpatialDim: "USA", TimeDim: 2019}\<close>, which has
  no \<open>NumericValue\<close>, is projected by the loop of \<open>getHealthData\<close>, for every
  indicator code, to the data point \<open>scenario_point\<close>: \<open>value = "12.3"\<close>,
  \<open>numeric_value = null\<close>, the fields that are present copied, every other field the
  empty string; and that is the \<open>data\<close> that \<open>getHealthData\<close> returns on a payload
  holding this record.
\<close>

theorem scenario_record_projection:
  "dataPoint code scenario_record = Inr (scenario_point code) \<and>
   js_get (scenario_point code) ''value'' = JStr ''12.3'' \<and>
   js_get (scenario_point code) ''numeric_value'' = JNull \<and>
   (code \<noteq> [] \<longrightarrow>
      map_sum id (\<lambda>r. js_get r ''data'')
        (snd (getHealthData (\<lambda>u. Inr (JObj [(''value'', JArr [scenario_record])]))
               (p\<lparr>indicator_code := Some code\<rparr>))) =
      Inr (JArr [scenario_point code]))"
proof -
  have "map_sum id (\<lambda>r. js_get r ''data'')
        (snd (getHealthData (\<lambda>u. Inr (JObj [(''value'', JArr [scenario_record])]))
               (p\<lparr>indicator_code := Some code\<rparr>))) =
      Inr (JArr [scenario_point code])" if "code \<noteq> []"
    using that
    by (simp add: getHealthData_data [where code = code] scenario_dataPoint and_then_def)
  moreover have "js_get (scenario_point code) ''value'' = JStr ''12.3''"
      "js_get (scenario_point code) ''numeric_value'' = JNull"
    by (simp_all add: scenario_point_def)
  ultimately show ?thesis
    using scenario_dataPoint by blast
qed

text \<open>The theorem of C9 at the indicator code \<open>WHOSIS_000001\<close>.\<close>

theorem scenario_record_projection_witness:
  "''WHOSIS_000001'' \<noteq> [] \<and>
   map_sum id (\<lambda>r. js_get r ''data'')
     (snd (getHealthData (\<lambda>u. Inr (JObj [(''value'', JArr [scenario_record])]))
            (no_params\<lparr>indicator_code := Some ''WHOSIS_000001''\<rparr>))) =
   Inr (JArr [scenario_point ''WHOSIS_000001''])"
  using scenario_record_projection [of "''WHOSIS_000001''" no_params]
  by simp

section \<open>C10: the value falls back to the numeric field\<close>

text \<open>
  Claim C10. For every record without \<open>Value\<close> whose \<open>NumericValue\<close> is a number
  other than zero, the loop of \<open>getHealthData\<close> projects \<open>value\<close> (and
  \<open>numeric_value\<close>) to that number and \<open>display_value\<close> to the empty string, so the
  two differ; and so they are in the \<open>data\<close> that \<open>getHealthData\<close> returns on a
  payload holding this record.
\<close>

theorem value_falls_back_to_numeric_value:
  assumes "js_get datum ''Value'' = JUndefined"
    and "js_get datum ''NumericValue'' = JNum n"
    and "n \<noteq> Finite 0"
  shows "map_sum id (\<lambda>point. (js_get point ''value'', js_get point ''numeric_value'',
                              js_get point ''display_value''))
           (dataPoint code datum) = Inr (JNum n, JNum n, JStr []) \<and>
         (code \<noteq> [] \<longrightarrow>
            map_sum id (\<lambda>r. js_get r ''data'')
              (snd (getHealthData (\<lambda>u. Inr (JObj [(''value'', JArr [datum])]))
                     (p\<lparr>indicator_code := Some code\<rparr>))) =
            map_sum id (\<lambda>point. JArr [point]) (dataPoint code datum))"
proof -
  from assms(2) have "\<not> nullish datum"
    by (cases datum) auto
  with assms have "map_sum id (\<lambda>point. (js_get point ''value'', js_get point ''numeric_value'',
                              js_get point ''display_value''))
           (dataPoint code datum) = Inr (JNum n, JNum n, JStr [])"
    by (simp add: dataPoint_def js_or_def)
  moreover have "map_sum id (\<lambda>r. js_get r ''data'')
              (snd (getHealthData (\<lambda>u. Inr (JObj [(''value'', JArr [datum])]))
                     (p\<lparr>indicator_code := Some code\<rparr>))) =
            map_sum id (\<lambda>point. JArr [point]) (dataPoint code datum)" if "code \<noteq> []"
    using that
    by (simp add: getHealthData_data [where code = code] and_then_def split: sum.splits)
  ultimately show ?thesis by blast
qed

text \<open>The theorem of C10 at the record \<open>{NumericValue: 71.5, SpatialDim: "FRA"}\<close>.\<close>

theorem value_falls_back_to_numeric_value_witness:
  "js_get (JObj [(''NumericValue'', JNum (Finite (143 / 2))), (''SpatialDim'', JStr ''FRA'')])
     ''Value'' = JUndefined \<and>
   Finite (143 / 2) \<noteq> Finite 0 \<and>
   map_sum id (\<lambda>point. (js_get point ''value'', js_get point ''numeric_value'',
                        js_get point ''display_value''))
     (dataPoint ''X''
        (JObj [(''NumericValue'', JNum (Finite (143 / 2))), (''SpatialDim'', JStr ''FRA'')])) =
   Inr (JNum (Finite (143 / 2)), JNum (Finite (143 / 2)), JStr [])"
  using value_falls_back_to_numeric_value
          [of "JObj [(''NumericValue'', JNum (Finite (143 / 2))), (''SpatialDim'', JStr ''FRA'')]"
              "Finite (143 / 2)" "''X''"]
  by simp

end
